theory Spec2Isabelle
  imports Main "HOL-Library.Word"
begin

section \<open>SCSI host lifecycle (drivers/scsi/hosts.c)\<close>

text \<open>
  A shallow embedding of the mid-layer host management code.  Each C function becomes a
  HOL function that takes the host record and returns the updated record together with
  the C return value.  Calls into other kernel subsystems (driver core, block layer,
  work queues, procfs, sysfs) are recorded as events, in call order; where such a call
  can fail its outcome is an input of the model.
\<close>

subsection \<open>Error numbers and limits\<close>

text \<open>
  Modelled from the spec: the errno values and \<open>INT_MAX\<close> come from kernel and
  compiler headers (asm-generic/errno-base.h, limits.h) that the file includes.
\<close>

definition EINVAL :: int where
  "EINVAL = 22"

definition ENOMEM :: int where
  "ENOMEM = 12"

definition INT_MAX :: int where
  "INT_MAX = 2147483647"

subsection \<open>Data model\<close>

text \<open>\<open>enum scsi_host_state\<close>, in the order of its declaration.\<close>

datatype scsi_host_state =
    SHOST_CREATED
  | SHOST_RUNNING
  | SHOST_CANCEL
  | SHOST_DEL
  | SHOST_RECOVERY
  | SHOST_CANCEL_RECOVERY
  | SHOST_DEL_RECOVERY

text \<open>
  Kernel object names are built by a format string with the host number as its only
  argument (\<open>"host%d"\<close>, \<open>"scsi_wq_%d"\<close>, ...); a name is kept as that pair.
\<close>

datatype kname = Kname string "32 word"

datatype workqueue_struct = Workqueue kname

datatype task_struct = Kthread kname

datatype blk_queue_tag = Blk_queue_tag int int

text \<open>Addresses of \<open>struct device\<close> objects that the code stores or passes on.\<close>

datatype dev_ptr =
    Platform_bus
  | Shost_gendev
  | Shost_dev
  | Ext_dev nat

datatype bus_ptr = Scsi_bus_type

datatype type_ptr = Scsi_host_type

datatype class_ptr = Shost_class

text \<open>
  The fields of \<open>struct device\<close> that hosts.c reads or writes.  \<open>kref\<close> is the
  reference count of the embedded kobject.
\<close>

record device =
  init_name :: "kname option"
  parent :: "dev_ptr option"
  bus :: "bus_ptr option"
  dev_type :: "type_ptr option"
  dev_class :: "class_ptr option"
  has_groups :: bool
  kref :: nat

text \<open>The fields of \<open>struct scsi_host_template\<close> read by hosts.c.\<close>

record scsi_host_template =
  sht_name :: string
  sht_has_info :: bool
  sht_this_id :: int
  sht_can_queue :: int
  sht_sg_tablesize :: nat
  sht_sg_prot_tablesize :: nat
  sht_cmd_per_lun :: int
  sht_unchecked_isa_dma :: bool
  sht_use_clustering :: bool
  sht_no_write_same :: bool
  sht_eh_host_reset_handler :: bool
  sht_supported_mode :: nat
  sht_max_host_blocked :: nat
  sht_max_sectors :: nat
  sht_dma_boundary :: nat
  sht_disable_blk_mq :: bool
  sht_tag_alloc_policy :: int

text \<open>The fields of \<open>struct scsi_transport_template\<close> read by hosts.c.\<close>

record scsi_transport_template =
  host_size :: nat
  create_work_queue :: bool

text \<open>
  \<open>struct Scsi_Host\<close>.  Pointers are options (\<open>None\<close> is \<open>NULL\<close>); the
  locks, wait queue and list heads of the structure are initialised by
  \<open>scsi_host_alloc\<close> and not otherwise read or written in this file, so they are
  left in the extension part of the record.
\<close>

record Scsi_Host =
  shost_state :: scsi_host_state
  host_no :: "32 word"
  dma_channel :: nat
  max_channel :: nat
  max_id :: nat
  max_lun :: nat
  max_cmd_len :: nat
  hostt :: scsi_host_template
  transportt :: scsi_transport_template
  this_id :: int
  can_queue :: int
  sg_tablesize :: nat
  sg_prot_tablesize :: nat
  cmd_per_lun :: int
  unchecked_isa_dma :: bool
  use_clustering :: bool
  no_write_same :: bool
  eh_deadline :: "32 word"
  active_mode :: nat
  max_host_blocked :: nat
  max_sectors :: nat
  dma_boundary :: nat
  use_blk_mq :: bool
  shost_gendev :: device
  shost_dev :: device
  dma_dev :: "dev_ptr option"
  ehandler :: "task_struct option"
  tmf_work_q :: "workqueue_struct option"
  bqt :: "blk_queue_tag option"
  shost_data :: "nat option"
  work_q_name :: "kname option"
  work_q :: "workqueue_struct option"

subsection \<open>The host state model\<close>

text \<open>
  \<open>scsi_host_set_state\<close>: the outer \<open>switch\<close> is on the requested state, the
  inner ones on the old state; \<open>goto illegal\<close> returns \<open>-EINVAL\<close> without
  touching the record.  The diagnostic print at \<open>illegal\<close> depends on the logging
  level only and does not touch the record; it is not modelled.
\<close>

fun transition_ok :: "scsi_host_state \<Rightarrow> scsi_host_state \<Rightarrow> bool" where
  "transition_ok SHOST_CREATED oldstate = False"
| "transition_ok SHOST_RUNNING oldstate =
     (case oldstate of
        SHOST_CREATED \<Rightarrow> True
      | SHOST_RECOVERY \<Rightarrow> True
      | _ \<Rightarrow> False)"
| "transition_ok SHOST_RECOVERY oldstate =
     (case oldstate of
        SHOST_RUNNING \<Rightarrow> True
      | _ \<Rightarrow> False)"
| "transition_ok SHOST_CANCEL oldstate =
     (case oldstate of
        SHOST_CREATED \<Rightarrow> True
      | SHOST_RUNNING \<Rightarrow> True
      | SHOST_CANCEL_RECOVERY \<Rightarrow> True
      | _ \<Rightarrow> False)"
| "transition_ok SHOST_DEL oldstate =
     (case oldstate of
        SHOST_CANCEL \<Rightarrow> True
      | SHOST_DEL_RECOVERY \<Rightarrow> True
      | _ \<Rightarrow> False)"
| "transition_ok SHOST_CANCEL_RECOVERY oldstate =
     (case oldstate of
        SHOST_CANCEL \<Rightarrow> True
      | SHOST_RECOVERY \<Rightarrow> True
      | _ \<Rightarrow> False)"
| "transition_ok SHOST_DEL_RECOVERY oldstate =
     (case oldstate of
        SHOST_CANCEL_RECOVERY \<Rightarrow> True
      | _ \<Rightarrow> False)"

definition scsi_host_set_state ::
  "'a Scsi_Host_scheme \<Rightarrow> scsi_host_state \<Rightarrow> int \<times> 'a Scsi_Host_scheme" where
  "scsi_host_set_state shost state =
     (let oldstate = shost_state shost in
      if state = oldstate then (0, shost)
      else if transition_ok state oldstate then (0, shost\<lparr>shost_state := state\<rparr>)
      else (- EINVAL, shost))"

subsection \<open>Calls into the rest of the kernel\<close>

datatype loglevel = KERN_ERR | KERN_WARNING | KERN_INFO

text \<open>
  One event per call that leaves hosts.c, with the arguments that identify the object
  and, for a call that can fail, the value it returned.
\<close>

datatype event =
    Shost_printk loglevel string
  | Dump_stack
  | Mutex_lock_scan_mutex
  | Mutex_unlock_scan_mutex
  | Spin_lock_irqsave_host_lock
  | Spin_unlock_irqrestore_host_lock
  | Scsi_autopm_get_host
  | Flush_workqueue "workqueue_struct option"
  | Scsi_forget_host
  | Scsi_proc_host_rm
  | Transport_unregister_device dev_ptr
  | Device_unregister dev_ptr
  | Device_del dev_ptr
  | Queue_work workqueue_struct nat bool
  | Kzalloc_Scsi_Host int bool bool
  | Kfree_Scsi_Host
  | Kthread_run kname "int option"
  | Kthread_stop "task_struct option"
  | Alloc_workqueue kname bool
  | Scsi_proc_hostdir_add
  | Scsi_mq_setup_tags int
  | Scsi_mq_destroy_tags
  | Blk_init_tags int int bool
  | Scsi_setup_command_freelist int
  | Scsi_destroy_command_freelist
  | Device_add dev_ptr int
  | Pm_runtime_set_active dev_ptr
  | Pm_runtime_enable dev_ptr
  | Get_device_parent "dev_ptr option"
  | Put_device dev_ptr
  | Kzalloc nat bool
  | Kfree "nat option"
  | Create_singlethread_workqueue kname bool
  | Destroy_workqueue workqueue_struct
  | Scsi_sysfs_add_host int
  | Scsi_proc_host_add

text \<open>
  Modelled from the spec: \<open>get_device\<close> is driver-core code (drivers/base/core.c),
  not part of hosts.c.  It takes a reference on the device, that is, increments the
  reference count of its kobject, and returns the device; for \<open>NULL\<close> it returns
  \<open>NULL\<close>.
\<close>

definition get_device :: "device option \<Rightarrow> device option" where
  "get_device dev =
     (case dev of
        None \<Rightarrow> None
      | Some d \<Rightarrow> Some (d\<lparr>kref := kref d + 1\<rparr>))"

subsection \<open>References\<close>

text \<open>
  \<open>scsi_host_get\<close>: \<open>||\<close> evaluates \<open>get_device\<close> only when the state is not
  \<open>SHOST_DEL\<close>.  The first component is the returned pointer (\<open>None\<close> for
  \<open>NULL\<close>, otherwise the record it points to), the second the record after the call.
\<close>

definition scsi_host_get :: "Scsi_Host \<Rightarrow> Scsi_Host option \<times> Scsi_Host" where
  "scsi_host_get shost =
     (if shost_state shost = SHOST_DEL then (None, shost)
      else
        (case get_device (Some (shost_gendev shost)) of
           None \<Rightarrow> (None, shost)
         | Some d \<Rightarrow> (let shost = shost\<lparr>shost_gendev := d\<rparr> in (Some shost, shost))))"

subsection \<open>The per-host work queue\<close>

text \<open>
  \<open>scsi_queue_work\<close> and \<open>scsi_flush_work\<close>.  \<open>queue_work\<close> returns whether
  the item was newly queued; that answer is the parameter \<open>queued\<close>.  A work item is
  identified by a number.
\<close>

definition scsi_queue_work :: "bool \<Rightarrow> Scsi_Host \<Rightarrow> nat \<Rightarrow> int \<times> event list" where
  "scsi_queue_work queued shost work =
     (case work_q shost of
        None \<Rightarrow>
          (- EINVAL,
           [Shost_printk KERN_ERR
              ''ERROR: Scsi host attempted to queue scsi-work, when no workqueue created.'',
            Dump_stack])
      | Some wq \<Rightarrow> (if queued then 1 else 0, [Queue_work wq work queued]))"

definition scsi_flush_work :: "Scsi_Host \<Rightarrow> event list" where
  "scsi_flush_work shost =
     (case work_q shost of
        None \<Rightarrow>
          [Shost_printk KERN_ERR
             ''ERROR: Scsi host attempted to flush scsi-work, when no workqueue created.'',
           Dump_stack]
      | Some wq \<Rightarrow> [Flush_workqueue (Some wq)])"

subsection \<open>Removing a host\<close>

text \<open>
  \<open>scsi_remove_host\<close> changes the state in two regions that hold the host lock.
  Between them the lock is free, and other execution contexts (the error handler, a
  second remover) may take it and call \<open>scsi_host_set_state\<close>.  The targets of those
  calls, in order, are the parameter \<open>others\<close>; an illegal one leaves the state as
  it is, as in the code.  \<open>BUG_ON\<close> does not return: it is the result
  \<open>Remove_BUG\<close>.
\<close>

datatype remove_result =
    Remove_BUG
  | Remove_returned Scsi_Host "event list"

definition other_contexts :: "scsi_host_state list \<Rightarrow> Scsi_Host \<Rightarrow> Scsi_Host" where
  "other_contexts others shost =
     foldl (\<lambda>h state. snd (scsi_host_set_state h state)) shost others"

text \<open>First locked region: \<open>True\<close> when one of the two transitions was accepted.\<close>

definition remove_cancel :: "Scsi_Host \<Rightarrow> bool \<times> Scsi_Host" where
  "remove_cancel shost =
     (let (r, shost) = scsi_host_set_state shost SHOST_CANCEL in
      if r \<noteq> 0 then
        (let (r, shost) = scsi_host_set_state shost SHOST_CANCEL_RECOVERY in
         if r \<noteq> 0 then (False, shost) else (True, shost))
      else (True, shost))"

text \<open>Second locked region: \<open>None\<close> when \<open>BUG_ON\<close> fires.\<close>

definition remove_del :: "Scsi_Host \<Rightarrow> Scsi_Host option" where
  "remove_del shost =
     (let (r, shost) = scsi_host_set_state shost SHOST_DEL in
      if r \<noteq> 0 then
        (let (r, shost) = scsi_host_set_state shost SHOST_DEL_RECOVERY in
         if r \<noteq> 0 then None else Some shost)
      else Some shost)"

definition scsi_remove_host :: "scsi_host_state list \<Rightarrow> Scsi_Host \<Rightarrow> remove_result" where
  "scsi_remove_host others shost =
     (let tr = [Mutex_lock_scan_mutex, Spin_lock_irqsave_host_lock];
          (ok, shost) = remove_cancel shost
      in
      if \<not> ok then
        Remove_returned shost
          (tr @ [Spin_unlock_irqrestore_host_lock, Mutex_unlock_scan_mutex])
      else
        (let tr = tr @ [Spin_unlock_irqrestore_host_lock,
                        Scsi_autopm_get_host,
                        Flush_workqueue (tmf_work_q shost),
                        Scsi_forget_host,
                        Mutex_unlock_scan_mutex,
                        Scsi_proc_host_rm];
             shost = other_contexts others shost;
             tr = tr @ [Spin_lock_irqsave_host_lock]
         in
         (case remove_del shost of
            None \<Rightarrow> Remove_BUG
          | Some shost \<Rightarrow>
              Remove_returned shost
                (tr @ [Spin_unlock_irqrestore_host_lock,
                       Transport_unregister_device Shost_gendev,
                       Device_unregister Shost_dev,
                       Device_del Shost_gendev]))))"

text \<open>The steps of the teardown sequence, as opposed to taking and dropping locks.\<close>

fun teardown_step :: "event \<Rightarrow> bool" where
  "teardown_step Scsi_autopm_get_host = True"
| "teardown_step (Flush_workqueue wq) = True"
| "teardown_step Scsi_forget_host = True"
| "teardown_step Scsi_proc_host_rm = True"
| "teardown_step (Transport_unregister_device d) = True"
| "teardown_step (Device_unregister d) = True"
| "teardown_step (Device_del d) = True"
| "teardown_step e = False"

subsection \<open>Allocating a host\<close>

text \<open>
  Constants of the kernel configuration and of headers outside hosts.c, taken as
  parameters: the tick rate \<open>HZ\<close> (an \<open>int\<close> constant), the two default limits,
  the two mode values and the statically zeroed \<open>blank_transport_template\<close>.
\<close>

record kernel_config =
  HZ :: "32 word"
  SCSI_DEFAULT_HOST_BLOCKED :: nat
  SCSI_DEFAULT_MAX_SECTORS :: nat
  MODE_UNKNOWN :: nat
  MODE_INITIATOR :: nat
  blank_transport_template :: scsi_transport_template

text \<open>
  The file-scope variables \<open>scsi_host_next_hn\<close> and \<open>shost_eh_deadline\<close>, and the
  module parameter \<open>scsi_use_blk_mq\<close> of the SCSI core.
\<close>

record globals =
  scsi_host_next_hn :: "32 word"
  shost_eh_deadline :: "32 word"
  scsi_use_blk_mq :: bool

text \<open>
  Outcomes of the calls of \<open>scsi_host_alloc\<close> that can fail: \<open>kzalloc\<close>,
  \<open>kthread_run_perf_critical\<close> (\<open>Some e\<close> is \<open>ERR_PTR(e)\<close>) and
  \<open>alloc_workqueue\<close>.
\<close>

record alloc_env =
  kzalloc_ok :: bool
  kthread_run_err :: "int option"
  alloc_workqueue_ok :: bool

text \<open>
  The conversion of the \<open>eh_deadline\<close> module parameter (an \<open>int\<close>, in seconds)
  to ticks.  \<open>(ulong) shost_eh_deadline * HZ\<close> sign-extends both \<open>int\<close> operands
  to \<open>unsigned long\<close>, which has 64 bits on arm64, the architecture of this kernel
  tree, multiplies modulo \<open>2^64\<close> and compares unsigned with \<open>INT_MAX\<close>.  The product
  in the last branch is an \<open>int\<close> product.  The second component says whether the
  warning was printed.
\<close>

definition eh_deadline_ticks :: "32 word \<Rightarrow> 32 word \<Rightarrow> bool \<Rightarrow> 32 word \<times> bool" where
  "eh_deadline_ticks hz deadline has_reset_handler =
     (if deadline = - 1 \<or> \<not> has_reset_handler then (- 1, False)
      else if (scast deadline :: 64 word) * scast hz > word_of_int INT_MAX
      then (word_of_int INT_MAX, True)
      else (deadline * hz, False))"

text \<open>
  Modelled from the spec: \<open>device_initialize\<close> and \<open>dev_set_name\<close> are driver-core
  code.  The first prepares the device and leaves its reference count at one, the
  reference held by the caller; the second stores the name.
\<close>

definition device_initialize :: "device \<Rightarrow> device" where
  "device_initialize dev = dev\<lparr>kref := 1\<rparr>"

definition dev_set_name :: "device \<Rightarrow> kname \<Rightarrow> device" where
  "dev_set_name dev name = dev\<lparr>init_name := Some name\<rparr>"

definition zeroed_device :: device where
  "zeroed_device =
     \<lparr>init_name = None, parent = None, bus = None, dev_type = None, dev_class = None,
      has_groups = False, kref = 0\<rparr>"

text \<open>
  The record as \<open>kzalloc\<close> returns it and the first assignments leave it: every field
  zero, except that \<open>shost_state\<close> already holds the \<open>SHOST_CREATED\<close> of line 402
  (zero is no value of the enumeration) and \<open>hostt\<close> and \<open>transportt\<close> already
  point to the template and to \<open>blank_transport_template\<close>.
\<close>

definition zeroed_Scsi_Host ::
  "scsi_host_template \<Rightarrow> scsi_transport_template \<Rightarrow> Scsi_Host" where
  "zeroed_Scsi_Host sht tt =
     \<lparr>shost_state = SHOST_CREATED, host_no = 0, dma_channel = 0, max_channel = 0,
      max_id = 0, max_lun = 0, max_cmd_len = 0, hostt = sht, transportt = tt,
      this_id = 0, can_queue = 0, sg_tablesize = 0, sg_prot_tablesize = 0,
      cmd_per_lun = 0, unchecked_isa_dma = False, use_clustering = False,
      no_write_same = False, eh_deadline = 0, active_mode = 0, max_host_blocked = 0,
      max_sectors = 0, dma_boundary = 0, use_blk_mq = False,
      shost_gendev = zeroed_device, shost_dev = zeroed_device, dma_dev = None,
      ehandler = None, tmf_work_q = None, bqt = None, shost_data = None,
      work_q_name = None, work_q = None\<rparr>"

text \<open>Lines 414 to 491: the scalar fields and the two embedded devices.\<close>

definition alloc_fields ::
  "kernel_config \<Rightarrow> globals \<Rightarrow> scsi_host_template \<Rightarrow> 32 word \<Rightarrow> Scsi_Host \<Rightarrow>
   Scsi_Host \<times> event list" where
  "alloc_fields cfg g sht hn shost =
     (let shost = shost\<lparr>host_no := hn\<rparr>;
          shost = shost\<lparr>dma_channel := 255\<rparr>;
          shost = shost\<lparr>max_channel := 0, max_id := 8, max_lun := 8\<rparr>;
          shost = shost\<lparr>transportt := blank_transport_template cfg\<rparr>;
          shost = shost\<lparr>max_cmd_len := 12\<rparr>;
          shost = shost\<lparr>hostt := sht\<rparr>;
          shost = shost\<lparr>this_id := sht_this_id sht\<rparr>;
          shost = shost\<lparr>can_queue := sht_can_queue sht\<rparr>;
          shost = shost\<lparr>sg_tablesize := sht_sg_tablesize sht\<rparr>;
          shost = shost\<lparr>sg_prot_tablesize := sht_sg_prot_tablesize sht\<rparr>;
          shost = shost\<lparr>cmd_per_lun := sht_cmd_per_lun sht\<rparr>;
          shost = shost\<lparr>unchecked_isa_dma := sht_unchecked_isa_dma sht\<rparr>;
          shost = shost\<lparr>use_clustering := sht_use_clustering sht\<rparr>;
          shost = shost\<lparr>no_write_same := sht_no_write_same sht\<rparr>;
          (ticks, warned) =
            eh_deadline_ticks (HZ cfg) (shost_eh_deadline g) (sht_eh_host_reset_handler sht);
          tr = (if warned
                then [Shost_printk KERN_WARNING ''eh_deadline %u too large, setting to %u'']
                else []);
          shost = shost\<lparr>eh_deadline := ticks\<rparr>;
          shost = shost\<lparr>active_mode :=
                    (if sht_supported_mode sht = MODE_UNKNOWN cfg then MODE_INITIATOR cfg
                     else sht_supported_mode sht)\<rparr>;
          shost = shost\<lparr>max_host_blocked :=
                    (if sht_max_host_blocked sht \<noteq> 0 then sht_max_host_blocked sht
                     else SCSI_DEFAULT_HOST_BLOCKED cfg)\<rparr>;
          shost = shost\<lparr>max_sectors :=
                    (if sht_max_sectors sht \<noteq> 0 then sht_max_sectors sht
                     else SCSI_DEFAULT_MAX_SECTORS cfg)\<rparr>;
          shost = shost\<lparr>dma_boundary :=
                    (if sht_dma_boundary sht \<noteq> 0 then sht_dma_boundary sht
                     else 4294967295)\<rparr>;
          shost = shost\<lparr>use_blk_mq :=
                    (scsi_use_blk_mq g \<and> \<not> sht_disable_blk_mq (hostt shost))\<rparr>;
          gendev = device_initialize (shost_gendev shost);
          gendev = dev_set_name gendev (Kname ''host%d'' (host_no shost));
          gendev = gendev\<lparr>bus := Some Scsi_bus_type, dev_type := Some Scsi_host_type\<rparr>;
          shost = shost\<lparr>shost_gendev := gendev\<rparr>;
          dev = device_initialize (shost_dev shost);
          dev = dev\<lparr>parent := Some Shost_gendev, dev_class := Some Shost_class\<rparr>;
          dev = dev_set_name dev (Kname ''host%d'' (host_no shost));
          dev = dev\<lparr>has_groups := True\<rparr>;
          shost = shost\<lparr>shost_dev := dev\<rparr>
      in (shost, tr))"

text \<open>
  \<open>scsi_host_alloc\<close>.  The host number is taken, and the counter advanced, before the
  two background resources are started, so a failure there still uses up a number.
\<close>

definition scsi_host_alloc ::
  "kernel_config \<Rightarrow> alloc_env \<Rightarrow> globals \<Rightarrow> scsi_host_template \<Rightarrow> int \<Rightarrow>
   Scsi_Host option \<times> globals \<times> event list" where
  "scsi_host_alloc cfg env g sht privsize =
     (let gfp_dma = (sht_unchecked_isa_dma sht \<and> privsize \<noteq> 0);
          tr = [Kzalloc_Scsi_Host privsize gfp_dma (kzalloc_ok env)]
      in
      if \<not> kzalloc_ok env then (None, g, tr)
      else
        (let shost = zeroed_Scsi_Host sht (blank_transport_template cfg);
             shost = shost\<lparr>shost_state := SHOST_CREATED\<rparr>;
             g = g\<lparr>scsi_host_next_hn := scsi_host_next_hn g + 1\<rparr>;
             (shost, tr1) = alloc_fields cfg g sht (scsi_host_next_hn g - 1) shost;
             tr = tr @ tr1;
             eh_name = Kname ''scsi_eh_%d'' (host_no shost);
             tr = tr @ [Kthread_run eh_name (kthread_run_err env)]
         in
         (case kthread_run_err env of
            Some e \<Rightarrow>
              (None, g,
               tr @ [Shost_printk KERN_WARNING
                       ''error handler thread failed to spawn, error = %ld'',
                     Kfree_Scsi_Host])
          | None \<Rightarrow>
              (let shost = shost\<lparr>ehandler := Some (Kthread eh_name)\<rparr>;
                   tmf_name = Kname ''scsi_tmf_%d'' (host_no shost);
                   tr = tr @ [Alloc_workqueue tmf_name (alloc_workqueue_ok env)]
               in
               if \<not> alloc_workqueue_ok env then
                 (None, g,
                  tr @ [Shost_printk KERN_WARNING ''failed to create tmf workq'',
                        Kthread_stop (ehandler shost),
                        Kfree_Scsi_Host])
               else
                 (let shost = shost\<lparr>tmf_work_q := Some (Workqueue tmf_name)\<rparr>
                  in (Some shost, g, tr @ [Scsi_proc_hostdir_add]))))))"

subsection \<open>Publishing a host\<close>

text \<open>
  Outcomes of the calls of \<open>scsi_add_host_with_dma\<close> that can fail.  An \<open>int\<close>
  is the error code the call returns (zero for success), a \<open>bool\<close> says whether an
  allocation returned a pointer other than \<open>NULL\<close>.
\<close>

record add_env =
  scsi_mq_setup_tags_ret :: int
  blk_init_tags_ok :: bool
  scsi_setup_command_freelist_ret :: int
  device_add_gendev_ret :: int
  device_add_shost_dev_ret :: int
  kzalloc_shost_data_ok :: bool
  create_singlethread_workqueue_ok :: bool
  scsi_sysfs_add_host_ret :: int

text \<open>
  \<open>shost_use_blk_mq\<close> is the accessor of include/scsi/scsi_host.h for the field
  that \<open>scsi_host_alloc\<close> sets.
\<close>

definition shost_use_blk_mq :: "Scsi_Host \<Rightarrow> bool" where
  "shost_use_blk_mq shost = use_blk_mq shost"

text \<open>
  The labels at the end of \<open>scsi_add_host_with_dma\<close>, last label first: control
  falls from each label into the next one.
\<close>

definition add_fail :: "int \<Rightarrow> Scsi_Host \<Rightarrow> event list \<Rightarrow> int \<times> Scsi_Host \<times> event list" where
  "add_fail error shost tr = (error, shost, tr)"

definition out_destroy_tags ::
  "int \<Rightarrow> Scsi_Host \<Rightarrow> event list \<Rightarrow> int \<times> Scsi_Host \<times> event list" where
  "out_destroy_tags error shost tr =
     add_fail error shost
       (if shost_use_blk_mq shost then tr @ [Scsi_mq_destroy_tags] else tr)"

definition out_destroy_freelist ::
  "int \<Rightarrow> Scsi_Host \<Rightarrow> event list \<Rightarrow> int \<times> Scsi_Host \<times> event list" where
  "out_destroy_freelist error shost tr =
     out_destroy_tags error shost (tr @ [Scsi_destroy_command_freelist])"

definition out_del_gendev ::
  "int \<Rightarrow> Scsi_Host \<Rightarrow> event list \<Rightarrow> int \<times> Scsi_Host \<times> event list" where
  "out_del_gendev error shost tr =
     out_destroy_freelist error shost (tr @ [Put_device Shost_dev, Device_del Shost_gendev])"

definition out_del_dev ::
  "int \<Rightarrow> Scsi_Host \<Rightarrow> event list \<Rightarrow> int \<times> Scsi_Host \<times> event list" where
  "out_del_dev error shost tr =
     out_del_gendev error shost (tr @ [Device_del Shost_dev])"

definition out_free_shost_data ::
  "int \<Rightarrow> Scsi_Host \<Rightarrow> event list \<Rightarrow> int \<times> Scsi_Host \<times> event list" where
  "out_free_shost_data error shost tr =
     out_del_dev error shost (tr @ [Kfree (shost_data shost)])"

definition out_destroy_host ::
  "int \<Rightarrow> Scsi_Host \<Rightarrow> event list \<Rightarrow> int \<times> Scsi_Host \<times> event list" where
  "out_destroy_host error shost tr =
     out_free_shost_data error shost
       (case work_q shost of
          Some wq \<Rightarrow> tr @ [Destroy_workqueue wq]
        | None \<Rightarrow> tr)"

text \<open>
  The body of \<open>scsi_add_host_with_dma\<close>, cut at each call that can fail; each part
  ends in the label it jumps to or in the part that follows it in the source.  The
  parts are given last part first.
\<close>

text \<open>Lines 284 to 289.\<close>

definition add_sysfs :: "add_env \<Rightarrow> Scsi_Host \<Rightarrow> event list \<Rightarrow> int \<times> Scsi_Host \<times> event list" where
  "add_sysfs env shost tr =
     (let error = scsi_sysfs_add_host_ret env;
          tr = tr @ [Scsi_sysfs_add_host error]
      in
      if error \<noteq> 0 then out_destroy_host error shost tr
      else (error, shost, tr @ [Scsi_proc_host_add]))"

text \<open>Lines 273 to 282.\<close>

definition add_work_q :: "add_env \<Rightarrow> Scsi_Host \<Rightarrow> event list \<Rightarrow> int \<times> Scsi_Host \<times> event list" where
  "add_work_q env shost tr =
     (if create_work_queue (transportt shost) then
        (let shost = shost\<lparr>work_q_name := Some (Kname ''scsi_wq_%d'' (host_no shost))\<rparr>;
             ok = create_singlethread_workqueue_ok env;
             tr = tr @ [Create_singlethread_workqueue (Kname ''scsi_wq_%d'' (host_no shost)) ok];
             shost = shost\<lparr>work_q :=
                       (if ok then Some (Workqueue (Kname ''scsi_wq_%d'' (host_no shost)))
                        else None)\<rparr>
         in
         if work_q shost = None then out_free_shost_data (- EINVAL) shost tr
         else add_sysfs env shost tr)
      else add_sysfs env shost tr)"

text \<open>Lines 264 to 271.\<close>

definition add_shost_data :: "add_env \<Rightarrow> Scsi_Host \<Rightarrow> event list \<Rightarrow> int \<times> Scsi_Host \<times> event list" where
  "add_shost_data env shost tr =
     (if host_size (transportt shost) \<noteq> 0 then
        (let ok = kzalloc_shost_data_ok env;
             tr = tr @ [Kzalloc (host_size (transportt shost)) ok];
             shost = shost\<lparr>shost_data :=
                       (if ok then Some (host_size (transportt shost)) else None)\<rparr>
         in
         if shost_data shost = None then out_del_dev (- ENOMEM) shost tr
         else add_work_q env shost tr)
      else add_work_q env shost tr)"

text \<open>
  Lines 256 to 262.  The value of \<open>scsi_host_set_state\<close> is discarded, as in the
  source.  The parent device lies outside the record, so the reference taken on it is
  an event; the reference on \<open>shost_gendev\<close> is counted in the record.
\<close>

definition add_shost_dev :: "add_env \<Rightarrow> Scsi_Host \<Rightarrow> event list \<Rightarrow> int \<times> Scsi_Host \<times> event list" where
  "add_shost_dev env shost tr =
     (let (r, shost) = scsi_host_set_state shost SHOST_RUNNING;
          tr = tr @ [Get_device_parent (parent (shost_gendev shost))];
          shost = (case get_device (Some (shost_gendev shost)) of
                     Some d \<Rightarrow> shost\<lparr>shost_gendev := d\<rparr>
                   | None \<Rightarrow> shost);
          error = device_add_shost_dev_ret env;
          tr = tr @ [Device_add Shost_dev error]
      in
      if error \<noteq> 0 then out_del_gendev error shost tr
      else add_shost_data env shost tr)"

text \<open>Lines 242 to 254.\<close>

definition add_gendev ::
  "add_env \<Rightarrow> Scsi_Host \<Rightarrow> dev_ptr option \<Rightarrow> dev_ptr option \<Rightarrow> event list \<Rightarrow>
   int \<times> Scsi_Host \<times> event list" where
  "add_gendev env shost dev dma tr =
     (let shost =
            (if parent (shost_gendev shost) = None
             then shost\<lparr>shost_gendev := (shost_gendev shost)
                    \<lparr>parent := Some (case dev of Some d \<Rightarrow> d | None \<Rightarrow> Platform_bus)\<rparr>\<rparr>
             else shost);
          dma = (case dma of None \<Rightarrow> parent (shost_gendev shost) | Some d \<Rightarrow> Some d);
          shost = shost\<lparr>dma_dev := dma\<rparr>;
          error = device_add_gendev_ret env;
          tr = tr @ [Device_add Shost_gendev error]
      in
      if error \<noteq> 0 then out_destroy_freelist error shost tr
      else
        add_shost_dev env shost
          (tr @ [Pm_runtime_set_active Shost_gendev, Pm_runtime_enable Shost_gendev]))"

text \<open>Lines 237 to 239.\<close>

definition add_freelist ::
  "add_env \<Rightarrow> Scsi_Host \<Rightarrow> dev_ptr option \<Rightarrow> dev_ptr option \<Rightarrow> event list \<Rightarrow>
   int \<times> Scsi_Host \<times> event list" where
  "add_freelist env shost dev dma tr =
     (let error = scsi_setup_command_freelist_ret env;
          tr = tr @ [Scsi_setup_command_freelist error]
      in
      if error \<noteq> 0 then out_destroy_tags error shost tr
      else add_gendev env shost dev dma tr)"

text \<open>Lines 216 to 227.\<close>

definition add_tags ::
  "add_env \<Rightarrow> Scsi_Host \<Rightarrow> dev_ptr option \<Rightarrow> dev_ptr option \<Rightarrow> event list \<Rightarrow>
   int \<times> Scsi_Host \<times> event list" where
  "add_tags env shost dev dma tr =
     (if shost_use_blk_mq shost then
        (let error = scsi_mq_setup_tags_ret env;
             tr = tr @ [Scsi_mq_setup_tags error]
         in
         if error \<noteq> 0 then add_fail error shost tr
         else add_freelist env shost dev dma tr)
      else
        (let ok = blk_init_tags_ok env;
             tr = tr @ [Blk_init_tags (can_queue shost) (sht_tag_alloc_policy (hostt shost)) ok];
             shost = shost\<lparr>bqt :=
                       (if ok
                        then Some (Blk_queue_tag (can_queue shost)
                                     (sht_tag_alloc_policy (hostt shost)))
                        else None)\<rparr>
         in
         if bqt shost = None then add_fail (- ENOMEM) shost tr
         else add_freelist env shost dev dma tr))"

text \<open>
  \<open>scsi_add_host_with_dma\<close>: the returned triple is the C return value, the record
  after the call and the calls made, in order.
\<close>

definition scsi_add_host_with_dma ::
  "add_env \<Rightarrow> Scsi_Host \<Rightarrow> dev_ptr option \<Rightarrow> dev_ptr option \<Rightarrow>
   int \<times> Scsi_Host \<times> event list" where
  "scsi_add_host_with_dma env shost dev dma =
     (let error = - EINVAL;
          tr = [Shost_printk KERN_INFO ''%s'']
      in
      if can_queue shost = 0 then
        add_fail error shost
          (tr @ [Shost_printk KERN_ERR ''can_queue = 0 no longer supported''])
      else add_tags env shost dev dma tr)"

subsection \<open>Notions of the specification\<close>

text \<open>
  The definitions of this part are not code of hosts.c: they name what the
  specification speaks of, so that its statements can be made about the functions above.
\<close>

text \<open>
  The transition table of the specification, as (source, target) pairs.
\<close>

definition legal_transitions :: "(scsi_host_state \<times> scsi_host_state) list" where
  "legal_transitions =
     [(SHOST_CREATED, SHOST_RUNNING), (SHOST_RECOVERY, SHOST_RUNNING),
      (SHOST_RUNNING, SHOST_RECOVERY),
      (SHOST_CREATED, SHOST_CANCEL), (SHOST_RUNNING, SHOST_CANCEL),
      (SHOST_CANCEL_RECOVERY, SHOST_CANCEL),
      (SHOST_CANCEL, SHOST_DEL), (SHOST_DEL_RECOVERY, SHOST_DEL),
      (SHOST_CANCEL, SHOST_CANCEL_RECOVERY), (SHOST_RECOVERY, SHOST_CANCEL_RECOVERY),
      (SHOST_CANCEL_RECOVERY, SHOST_DEL_RECOVERY)]"





text \<open>
  The steps of publishing that can fail, and the step a run failed at: the first call
  in it that reported a failure.  The only \<open>KERN_ERR\<close> message of
  \<open>scsi_add_host_with_dma\<close> is the complaint about \<open>can_queue\<close>.
\<close>

datatype add_step =
    Check_can_queue
  | Setup_tags
  | Setup_freelist
  | Add_gendev
  | Add_shost_dev
  | Alloc_shost_data
  | Create_work_q
  | Sysfs_add_host

fun failed_call :: "event \<Rightarrow> add_step option" where
  "failed_call (Shost_printk level msg) =
     (if level = KERN_ERR then Some Check_can_queue else None)"
| "failed_call (Scsi_mq_setup_tags r) = (if r \<noteq> 0 then Some Setup_tags else None)"
| "failed_call (Blk_init_tags depth policy ok) = (if \<not> ok then Some Setup_tags else None)"
| "failed_call (Scsi_setup_command_freelist r) =
     (if r \<noteq> 0 then Some Setup_freelist else None)"
| "failed_call (Device_add Shost_gendev r) = (if r \<noteq> 0 then Some Add_gendev else None)"
| "failed_call (Device_add Shost_dev r) = (if r \<noteq> 0 then Some Add_shost_dev else None)"
| "failed_call (Kzalloc n ok) = (if \<not> ok then Some Alloc_shost_data else None)"
| "failed_call (Create_singlethread_workqueue name ok) =
     (if \<not> ok then Some Create_work_q else None)"
| "failed_call (Scsi_sysfs_add_host r) = (if r \<noteq> 0 then Some Sysfs_add_host else None)"
| "failed_call e = None"

fun failing_step :: "event list \<Rightarrow> add_step option" where
  "failing_step [] = None"
| "failing_step (e # es) =
     (case failed_call e of
        Some step \<Rightarrow> Some step
      | None \<Rightarrow> failing_step es)"

text \<open>The steps that come before the call of \<open>scsi_host_set_state\<close> on line 256.\<close>

fun before_transition :: "add_step \<Rightarrow> bool" where
  "before_transition Check_can_queue = True"
| "before_transition Setup_tags = True"
| "before_transition Setup_freelist = True"
| "before_transition Add_gendev = True"
| "before_transition step = False"

text \<open>
  The deadline conversion as the specification words it, on mathematical integers:
  disabled for \<open>-1\<close> or without a reset handler, clamped with a warning when seconds
  times tick rate exceeds \<open>INT_MAX\<close>, the exact product otherwise.
\<close>

definition eh_deadline_claimed :: "int \<Rightarrow> int \<Rightarrow> bool \<Rightarrow> int \<times> bool" where
  "eh_deadline_claimed hz seconds has_reset_handler =
     (if seconds = - 1 \<or> \<not> has_reset_handler then (- 1, False)
      else if seconds * hz > INT_MAX then (INT_MAX, True)
      else (seconds * hz, False))"

subsection \<open>Sample inputs\<close>

definition sample_template :: scsi_host_template where
  "sample_template =
     \<lparr>sht_name = ''sample'', sht_has_info = False, sht_this_id = 7, sht_can_queue = 32,
      sht_sg_tablesize = 128, sht_sg_prot_tablesize = 0, sht_cmd_per_lun = 1,
      sht_unchecked_isa_dma = False, sht_use_clustering = True, sht_no_write_same = False,
      sht_eh_host_reset_handler = True, sht_supported_mode = 0, sht_max_host_blocked = 0,
      sht_max_sectors = 0, sht_dma_boundary = 0, sht_disable_blk_mq = False,
      sht_tag_alloc_policy = 0\<rparr>"

definition sample_config :: kernel_config where
  "sample_config =
     \<lparr>HZ = 100, SCSI_DEFAULT_HOST_BLOCKED = 7, SCSI_DEFAULT_MAX_SECTORS = 1024,
      MODE_UNKNOWN = 0, MODE_INITIATOR = 1,
      blank_transport_template = \<lparr>host_size = 0, create_work_queue = False\<rparr>\<rparr>"

definition sample_globals :: globals where
  "sample_globals =
     \<lparr>scsi_host_next_hn = 0, shost_eh_deadline = - 1, scsi_use_blk_mq = False\<rparr>"

definition sample_alloc_env :: alloc_env where
  "sample_alloc_env =
     \<lparr>kzalloc_ok = True, kthread_run_err = None, alloc_workqueue_ok = True\<rparr>"

definition sample_add_env :: add_env where
  "sample_add_env =
     \<lparr>scsi_mq_setup_tags_ret = 0, blk_init_tags_ok = True,
      scsi_setup_command_freelist_ret = 0, device_add_gendev_ret = 0,
      device_add_shost_dev_ret = 0, kzalloc_shost_data_ok = True,
      create_singlethread_workqueue_ok = True, scsi_sysfs_add_host_ret = 0\<rparr>"

text \<open>The host that \<open>scsi_host_alloc\<close> returns for the sample inputs.\<close>

definition sample_host :: Scsi_Host where
  "sample_host =
     \<lparr>shost_state = SHOST_CREATED, host_no = 0, dma_channel = 255, max_channel = 0,
      max_id = 8, max_lun = 8, max_cmd_len = 12, hostt = sample_template,
      transportt = \<lparr>host_size = 0, create_work_queue = False\<rparr>,
      this_id = 7, can_queue = 32, sg_tablesize = 128, sg_prot_tablesize = 0,
      cmd_per_lun = 1, unchecked_isa_dma = False, use_clustering = True,
      no_write_same = False, eh_deadline = - 1, active_mode = 1, max_host_blocked = 7,
      max_sectors = 1024, dma_boundary = 4294967295, use_blk_mq = False,
      shost_gendev =
        \<lparr>init_name = Some (Kname ''host%d'' 0), parent = None, bus = Some Scsi_bus_type,
         dev_type = Some Scsi_host_type, dev_class = None, has_groups = False, kref = 1\<rparr>,
      shost_dev =
        \<lparr>init_name = Some (Kname ''host%d'' 0), parent = Some Shost_gendev, bus = None,
         dev_type = None, dev_class = Some Shost_class, has_groups = True, kref = 1\<rparr>,
      dma_dev = None,
      ehandler = Some (Kthread (Kname ''scsi_eh_%d'' 0)),
      tmf_work_q = Some (Workqueue (Kname ''scsi_tmf_%d'' 0)),
      bqt = None, shost_data = None, work_q_name = None, work_q = None\<rparr>"

subsection \<open>Auxiliary notions\<close>

text \<open>
  The states a host passes through once its removal has begun, the two states it ends
  in, and the calls of a \<open>scsi_remove_host\<close> that returns early.
\<close>

definition removing :: "scsi_host_state \<Rightarrow> bool" where
  "removing s =
     (s = SHOST_CANCEL \<or> s = SHOST_CANCEL_RECOVERY \<or> s = SHOST_DEL \<or> s = SHOST_DEL_RECOVERY)"

definition deleted :: "scsi_host_state \<Rightarrow> bool" where
  "deleted s = (s = SHOST_DEL \<or> s = SHOST_DEL_RECOVERY)"

definition remove_noop_trace :: "event list" where
  "remove_noop_trace =
     [Mutex_lock_scan_mutex, Spin_lock_irqsave_host_lock,
      Spin_unlock_irqrestore_host_lock, Mutex_unlock_scan_mutex]"

text \<open>
  The state a publishing run must end in, given the step it failed at, and the two
  statements made of every run: about its result and state, and about what it still
  holds.  \<open>held_data\<close> and \<open>held_work_q\<close> are the optional resources a record
  shows as held, \<open>legacy_tags\<close> what remains after the labels have run.
\<close>

definition state_after_add :: "add_step option \<Rightarrow> scsi_host_state" where
  "state_after_add failed =
     (case failed of
        None \<Rightarrow> SHOST_RUNNING
      | Some step \<Rightarrow> if before_transition step then SHOST_CREATED else SHOST_RUNNING)"

definition add_outcome_ok :: "int \<times> Scsi_Host \<times> event list \<Rightarrow> bool" where
  "add_outcome_ok res =
     (case res of (error, shost', tr) \<Rightarrow>
        (error = 0) = (failing_step tr = None)
        \<and> shost_state shost' = state_after_add (failing_step tr))"






section \<open>Properties\<close>

subsection \<open>State model\<close>

lemma transition_ok_table:
  "transition_ok state oldstate = ((oldstate, state) \<in> set legal_transitions)"
  by (cases state; cases oldstate) (simp_all add: legal_transitions_def)

lemma transition_ok_irrefl: "\<not> transition_ok s s"
  by (cases s) simp_all

lemma set_state_result:
  "scsi_host_set_state shost state =
     (if state = shost_state shost \<or> transition_ok state (shost_state shost)
      then (0, shost\<lparr>shost_state := state\<rparr>) else (- EINVAL, shost))"
  by (simp add: scsi_host_set_state_def Let_def)

text \<open>
  C1. For every host record and every target state, \<open>scsi_host_set_state\<close> returns 0
  and leaves \<open>shost_state\<close> at the target exactly when the target equals the current
  state or the (current, target) pair is in the transition table; for every other pair
  it returns \<open>-EINVAL\<close> and the record is unchanged.  No pair of the table targets
  \<open>SHOST_CREATED\<close>, and setting a state to itself succeeds without changing the
  record, for every state.
\<close>

theorem scsi_host_set_state_table:
  "scsi_host_set_state shost state =
     (if state = shost_state shost \<or> (shost_state shost, state) \<in> set legal_transitions
      then (0, shost\<lparr>shost_state := state\<rparr>) else (- EINVAL, shost))
   \<and> ((fst (scsi_host_set_state shost state) = 0
        \<and> shost_state (snd (scsi_host_set_state shost state)) = state)
      = (state = shost_state shost \<or> (shost_state shost, state) \<in> set legal_transitions))
   \<and> (s, SHOST_CREATED) \<notin> set legal_transitions
   \<and> scsi_host_set_state shost (shost_state shost) = (0, shost)"
proof -
  have tab: "scsi_host_set_state shost state =
     (if state = shost_state shost \<or> (shost_state shost, state) \<in> set legal_transitions
      then (0, shost\<lparr>shost_state := state\<rparr>) else (- EINVAL, shost))"
    by (simp add: set_state_result transition_ok_table)
  have iff: "(fst (scsi_host_set_state shost state) = 0
        \<and> shost_state (snd (scsi_host_set_state shost state)) = state)
      = (state = shost_state shost \<or> (shost_state shost, state) \<in> set legal_transitions)"
    by (simp add: tab EINVAL_def)
  have created: "(s, SHOST_CREATED) \<notin> set legal_transitions"
    by (simp add: legal_transitions_def)
  have self: "scsi_host_set_state shost (shost_state shost) = (0, shost)"
    by (simp add: scsi_host_set_state_def)
  from tab iff created self show ?thesis by blast
qed

text \<open>
  C10. \<open>scsi_host_set_state\<close> writes no field but \<open>shost_state\<close>: the record
  after the call is the record before it with at most \<open>shost_state\<close> replaced, and
  when the call reports an error the record is the one before the call.
\<close>

theorem scsi_host_set_state_frame:
  "snd (scsi_host_set_state shost state) =
     shost\<lparr>shost_state := shost_state (snd (scsi_host_set_state shost state))\<rparr>
   \<and> (if fst (scsi_host_set_state shost state) = 0
      then snd (scsi_host_set_state shost state) = shost\<lparr>shost_state := state\<rparr>
      else snd (scsi_host_set_state shost state) = shost)"
  by (simp add: set_state_result EINVAL_def)

subsection \<open>Removing a host\<close>

lemma other_contexts_Nil: "other_contexts [] shost = shost"
  by (simp add: other_contexts_def)

lemma other_contexts_Cons:
  "other_contexts (t # ts) shost = other_contexts ts (snd (scsi_host_set_state shost t))"
  by (simp add: other_contexts_def)

lemma set_state_removing:
  "removing (shost_state shost) \<Longrightarrow> removing (shost_state (snd (scsi_host_set_state shost t)))"
  by (cases t; cases "shost_state shost") (simp_all add: set_state_result removing_def)

lemma other_contexts_removing:
  "removing (shost_state shost) \<Longrightarrow> removing (shost_state (other_contexts ts shost))"
  by (induction ts arbitrary: shost)
    (simp_all add: other_contexts_Nil other_contexts_Cons set_state_removing)

lemma set_state_deleted:
  "deleted (shost_state shost) \<Longrightarrow> deleted (shost_state (snd (scsi_host_set_state shost t)))"
  by (cases t; cases "shost_state shost") (simp_all add: set_state_result deleted_def)

lemma other_contexts_deleted:
  "deleted (shost_state shost) \<Longrightarrow> deleted (shost_state (other_contexts ts shost))"
  by (induction ts arbitrary: shost)
    (simp_all add: other_contexts_Nil other_contexts_Cons set_state_deleted)

lemma remove_del_removing:
  "removing (shost_state shost) \<Longrightarrow>
   \<exists>shost'. remove_del shost = Some shost' \<and> deleted (shost_state shost')"
  by (cases "shost_state shost")
    (simp_all add: remove_del_def set_state_result removing_def deleted_def EINVAL_def)

lemma remove_cancel_result:
  "remove_cancel shost =
    (if deleted (shost_state shost) then (False, shost)
     else if shost_state shost = SHOST_RECOVERY
     then (True, shost\<lparr>shost_state := SHOST_CANCEL_RECOVERY\<rparr>)
     else (True, shost\<lparr>shost_state := SHOST_CANCEL\<rparr>))"
  by (cases "shost_state shost")
    (simp_all add: remove_cancel_def set_state_result EINVAL_def deleted_def)

lemma remove_cancel_removing:
  "fst (remove_cancel shost) \<Longrightarrow> removing (shost_state (snd (remove_cancel shost)))"
  by (simp add: remove_cancel_result removing_def split: if_splits)

lemma remove_noop:
  "deleted (shost_state shost) \<Longrightarrow>
   scsi_remove_host others shost = Remove_returned shost remove_noop_trace"
  by (simp add: scsi_remove_host_def remove_cancel_result remove_noop_trace_def)

lemma remove_full:
  assumes "\<not> deleted (shost_state shost)"
  shows "\<exists>shost' tr. scsi_remove_host others shost = Remove_returned shost' tr
           \<and> deleted (shost_state shost') \<and> list_ex teardown_step tr"
proof -
  obtain ok h where c: "remove_cancel shost = (ok, h)"
    by (cases "remove_cancel shost")
  with assms have ok: "ok"
    by (simp add: remove_cancel_result split: if_splits)
  from c ok remove_cancel_removing [of shost] have "removing (shost_state h)"
    by simp
  then have "removing (shost_state (other_contexts others h))"
    by (rule other_contexts_removing)
  then obtain h' where h': "remove_del (other_contexts others h) = Some h'"
      "deleted (shost_state h')"
    using remove_del_removing by blast
  with c ok show ?thesis
    by (simp add: scsi_remove_host_def)
qed

text \<open>
  C4. Once the first locked region of \<open>scsi_remove_host\<close> has left the state at
  \<open>SHOST_CANCEL\<close> or \<open>SHOST_CANCEL_RECOVERY\<close>, the second region succeeds whatever
  calls of \<open>scsi_host_set_state\<close> other contexts make in between: setting
  \<open>SHOST_DEL\<close> is accepted, or else setting \<open>SHOST_DEL_RECOVERY\<close> is.  So
  \<open>BUG_ON\<close> never fires, and a removal that does not return early leaves the state
  at \<open>SHOST_DEL\<close> or \<open>SHOST_DEL_RECOVERY\<close>.
\<close>

theorem scsi_remove_host_no_BUG:
  "(shost_state h = SHOST_CANCEL \<or> shost_state h = SHOST_CANCEL_RECOVERY \<longrightarrow>
      (\<exists>h'. remove_del (other_contexts others h) = Some h'
         \<and> (shost_state h' = SHOST_DEL \<or> shost_state h' = SHOST_DEL_RECOVERY)))
   \<and> scsi_remove_host others shost \<noteq> Remove_BUG
   \<and> (case scsi_remove_host others shost of
         Remove_BUG \<Rightarrow> False
       | Remove_returned shost' tr \<Rightarrow>
           if shost_state shost = SHOST_DEL \<or> shost_state shost = SHOST_DEL_RECOVERY
           then shost' = shost \<and> tr = remove_noop_trace
           else shost_state shost' = SHOST_DEL \<or> shost_state shost' = SHOST_DEL_RECOVERY)"
proof (intro conjI impI)
  assume "shost_state h = SHOST_CANCEL \<or> shost_state h = SHOST_CANCEL_RECOVERY"
  then have "removing (shost_state (other_contexts others h))"
    by (intro other_contexts_removing) (auto simp: removing_def)
  from remove_del_removing [OF this]
  show "\<exists>h'. remove_del (other_contexts others h) = Some h'
         \<and> (shost_state h' = SHOST_DEL \<or> shost_state h' = SHOST_DEL_RECOVERY)"
    by (simp add: deleted_def)
next
  show "scsi_remove_host others shost \<noteq> Remove_BUG"
    using remove_noop [of shost others] remove_full [of shost others]
    by (cases "deleted (shost_state shost)") auto
next
  show "case scsi_remove_host others shost of
         Remove_BUG \<Rightarrow> False
       | Remove_returned shost' tr \<Rightarrow>
           if shost_state shost = SHOST_DEL \<or> shost_state shost = SHOST_DEL_RECOVERY
           then shost' = shost \<and> tr = remove_noop_trace
           else shost_state shost' = SHOST_DEL \<or> shost_state shost' = SHOST_DEL_RECOVERY"
    using remove_noop [of shost others] remove_full [of shost others]
    by (cases "deleted (shost_state shost)") (auto simp: deleted_def)
qed

theorem scsi_remove_host_no_BUG_witness:
  "shost_state (sample_host\<lparr>shost_state := SHOST_CANCEL_RECOVERY\<rparr>) = SHOST_CANCEL_RECOVERY
   \<and> remove_del (other_contexts [SHOST_RUNNING, SHOST_CANCEL, SHOST_CANCEL_RECOVERY]
        (sample_host\<lparr>shost_state := SHOST_CANCEL_RECOVERY\<rparr>))
      = Some (sample_host\<lparr>shost_state := SHOST_DEL_RECOVERY\<rparr>)
   \<and> scsi_remove_host [SHOST_CANCEL_RECOVERY] (sample_host\<lparr>shost_state := SHOST_RECOVERY\<rparr>)
      \<noteq> Remove_BUG"
  using scsi_remove_host_no_BUG
    [of "sample_host\<lparr>shost_state := SHOST_CANCEL_RECOVERY\<rparr>"
        "[SHOST_RUNNING, SHOST_CANCEL, SHOST_CANCEL_RECOVERY]"]
    scsi_remove_host_no_BUG
    [of _ "[SHOST_CANCEL_RECOVERY]" "sample_host\<lparr>shost_state := SHOST_RECOVERY\<rparr>"]
  by (simp add: other_contexts_def remove_del_def set_state_result EINVAL_def)

text \<open>
  C6. \<open>scsi_remove_host\<close> on a host from which neither \<open>SHOST_CANCEL\<close> nor
  \<open>SHOST_CANCEL_RECOVERY\<close> is accepted, which are exactly the hosts in
  \<open>SHOST_DEL\<close> or \<open>SHOST_DEL_RECOVERY\<close>, returns at once: the record is
  unchanged and no step of the teardown runs, only the two locks are taken and dropped.
  In particular a second removal after a first one, whatever state changes other
  contexts attempt in between, is such a call.
\<close>

theorem scsi_remove_host_idempotent:
  "((fst (scsi_host_set_state shost SHOST_CANCEL) \<noteq> 0
      \<and> fst (scsi_host_set_state shost SHOST_CANCEL_RECOVERY) \<noteq> 0)
     = (shost_state shost = SHOST_DEL \<or> shost_state shost = SHOST_DEL_RECOVERY))
   \<and> (fst (scsi_host_set_state shost SHOST_CANCEL) \<noteq> 0
      \<and> fst (scsi_host_set_state shost SHOST_CANCEL_RECOVERY) \<noteq> 0 \<longrightarrow>
        scsi_remove_host others shost = Remove_returned shost remove_noop_trace
        \<and> \<not> list_ex teardown_step remove_noop_trace)
   \<and> (scsi_remove_host others shost = Remove_returned returned calls \<longrightarrow>
        scsi_remove_host again (other_contexts between returned)
          = Remove_returned (other_contexts between returned) remove_noop_trace)"
proof (intro conjI impI)
  show iff: "(fst (scsi_host_set_state shost SHOST_CANCEL) \<noteq> 0
      \<and> fst (scsi_host_set_state shost SHOST_CANCEL_RECOVERY) \<noteq> 0)
     = (shost_state shost = SHOST_DEL \<or> shost_state shost = SHOST_DEL_RECOVERY)"
    by (cases "shost_state shost") (simp_all add: set_state_result EINVAL_def)
  assume "fst (scsi_host_set_state shost SHOST_CANCEL) \<noteq> 0
      \<and> fst (scsi_host_set_state shost SHOST_CANCEL_RECOVERY) \<noteq> 0"
  with iff have "deleted (shost_state shost)"
    by (simp add: deleted_def)
  then show "scsi_remove_host others shost = Remove_returned shost remove_noop_trace"
    by (rule remove_noop)
next
  show "\<not> list_ex teardown_step remove_noop_trace"
    by (simp add: remove_noop_trace_def)
next
  assume r: "scsi_remove_host others shost = Remove_returned returned calls"
  have "deleted (shost_state returned)"
    using r remove_noop [of shost others] remove_full [of shost others]
    by (cases "deleted (shost_state shost)") auto
  then have "deleted (shost_state (other_contexts between returned))"
    by (rule other_contexts_deleted)
  then show "scsi_remove_host again (other_contexts between returned)
          = Remove_returned (other_contexts between returned) remove_noop_trace"
    by (rule remove_noop)
qed

theorem scsi_remove_host_idempotent_witness:
  "fst (scsi_host_set_state (sample_host\<lparr>shost_state := SHOST_DEL\<rparr>) SHOST_CANCEL) \<noteq> 0
   \<and> fst (scsi_host_set_state (sample_host\<lparr>shost_state := SHOST_DEL\<rparr>) SHOST_CANCEL_RECOVERY) \<noteq> 0
   \<and> scsi_remove_host [] (sample_host\<lparr>shost_state := SHOST_DEL\<rparr>)
       = Remove_returned (sample_host\<lparr>shost_state := SHOST_DEL\<rparr>) remove_noop_trace
   \<and> scsi_remove_host [] sample_host
       = Remove_returned (sample_host\<lparr>shost_state := SHOST_DEL\<rparr>)
           [Mutex_lock_scan_mutex, Spin_lock_irqsave_host_lock,
            Spin_unlock_irqrestore_host_lock, Scsi_autopm_get_host,
            Flush_workqueue (Some (Workqueue (Kname ''scsi_tmf_%d'' 0))),
            Scsi_forget_host, Mutex_unlock_scan_mutex, Scsi_proc_host_rm,
            Spin_lock_irqsave_host_lock, Spin_unlock_irqrestore_host_lock,
            Transport_unregister_device Shost_gendev, Device_unregister Shost_dev,
            Device_del Shost_gendev]
   \<and> scsi_remove_host [] (other_contexts [] (sample_host\<lparr>shost_state := SHOST_DEL\<rparr>))
       = Remove_returned (other_contexts [] (sample_host\<lparr>shost_state := SHOST_DEL\<rparr>))
           remove_noop_trace"
proof -
  have run: "scsi_remove_host [] sample_host
       = Remove_returned (sample_host\<lparr>shost_state := SHOST_DEL\<rparr>)
           [Mutex_lock_scan_mutex, Spin_lock_irqsave_host_lock,
            Spin_unlock_irqrestore_host_lock, Scsi_autopm_get_host,
            Flush_workqueue (Some (Workqueue (Kname ''scsi_tmf_%d'' 0))),
            Scsi_forget_host, Mutex_unlock_scan_mutex, Scsi_proc_host_rm,
            Spin_lock_irqsave_host_lock, Spin_unlock_irqrestore_host_lock,
            Transport_unregister_device Shost_gendev, Device_unregister Shost_dev,
            Device_del Shost_gendev]"
    by (simp add: scsi_remove_host_def remove_cancel_def remove_del_def other_contexts_def
        set_state_result EINVAL_def sample_host_def)
  have pre: "fst (scsi_host_set_state (sample_host\<lparr>shost_state := SHOST_DEL\<rparr>) SHOST_CANCEL) \<noteq> 0
   \<and> fst (scsi_host_set_state (sample_host\<lparr>shost_state := SHOST_DEL\<rparr>) SHOST_CANCEL_RECOVERY) \<noteq> 0"
    by (simp add: set_state_result EINVAL_def)
  from scsi_remove_host_idempotent
    [where shost = "sample_host\<lparr>shost_state := SHOST_DEL\<rparr>" and others = "[]"] pre
  have first: "scsi_remove_host [] (sample_host\<lparr>shost_state := SHOST_DEL\<rparr>)
       = Remove_returned (sample_host\<lparr>shost_state := SHOST_DEL\<rparr>) remove_noop_trace"
    by blast
  from scsi_remove_host_idempotent
    [where shost = sample_host and others = "[]" and again = "[]" and between = "[]"] run
  have second: "scsi_remove_host [] (other_contexts [] (sample_host\<lparr>shost_state := SHOST_DEL\<rparr>))
       = Remove_returned (other_contexts [] (sample_host\<lparr>shost_state := SHOST_DEL\<rparr>))
           remove_noop_trace"
    by blast
  from pre first run second show ?thesis by blast
qed

subsection \<open>References\<close>

text \<open>
  C5. \<open>scsi_host_get\<close> on a host in \<open>SHOST_DEL\<close> returns \<open>NULL\<close> and leaves
  the record, and with it the reference count, as it was; on a host in any other state
  it increments the reference count of \<open>shost_gendev\<close> and returns the host.
\<close>

theorem scsi_host_get_result:
  "scsi_host_get shost =
     (if shost_state shost = SHOST_DEL then (None, shost)
      else
        (Some (shost\<lparr>shost_gendev := (shost_gendev shost)\<lparr>kref := kref (shost_gendev shost) + 1\<rparr>\<rparr>),
         shost\<lparr>shost_gendev := (shost_gendev shost)\<lparr>kref := kref (shost_gendev shost) + 1\<rparr>\<rparr>))
   \<and> kref (shost_gendev (snd (scsi_host_get shost))) =
       (if shost_state shost = SHOST_DEL then kref (shost_gendev shost)
        else kref (shost_gendev shost) + 1)
   \<and> (fst (scsi_host_get shost) = None) = (shost_state shost = SHOST_DEL)"
  by (simp add: scsi_host_get_def get_device_def Let_def)

subsection \<open>The per-host work queue\<close>

text \<open>
  C8. On a host whose \<open>work_q\<close> is \<open>NULL\<close>, \<open>scsi_queue_work\<close> returns
  \<open>-EINVAL\<close> after the complaint and the stack dump and submits nothing, and
  \<open>scsi_flush_work\<close> makes the same complaint and flushes nothing.
\<close>

theorem work_q_not_configured:
  assumes "work_q shost = None"
  shows "scsi_queue_work queued shost work =
           (- EINVAL,
            [Shost_printk KERN_ERR
               ''ERROR: Scsi host attempted to queue scsi-work, when no workqueue created.'',
             Dump_stack])
         \<and> (\<forall>wq w q. Queue_work wq w q \<notin> set (snd (scsi_queue_work queued shost work)))
         \<and> scsi_flush_work shost =
           [Shost_printk KERN_ERR
              ''ERROR: Scsi host attempted to flush scsi-work, when no workqueue created.'',
            Dump_stack]
         \<and> (\<forall>wq. Flush_workqueue wq \<notin> set (scsi_flush_work shost))"
  using assms by (simp add: scsi_queue_work_def scsi_flush_work_def)

theorem work_q_not_configured_witness:
  "work_q sample_host = None
   \<and> fst (scsi_queue_work True sample_host 0) = - 22
   \<and> scsi_flush_work sample_host =
           [Shost_printk KERN_ERR
              ''ERROR: Scsi host attempted to flush scsi-work, when no workqueue created.'',
            Dump_stack]"
proof -
  have h: "work_q sample_host = None"
    by (simp add: sample_host_def)
  from work_q_not_configured [OF h, of True 0] h show ?thesis
    by (simp add: EINVAL_def)
qed

subsection \<open>Allocating a host\<close>

lemma sint32_bounds: "- 2147483648 \<le> sint (a :: 32 word) \<and> sint a < 2147483648"
  using sint_ge [of a] sint_lt [of a] by simp

lemma scast_mult_uint:
  "uint ((scast (a :: 32 word) :: 64 word) * scast (h :: 32 word)) = (sint a * sint h) mod 2 ^ 64"
proof -
  have "(scast a :: 64 word) * scast h = word_of_int (sint a) * word_of_int (sint h)"
    by (simp only: scast_eq)
  also have "\<dots> = word_of_int (sint a * sint h)"
    by (simp only: of_int_mult)
  finally show ?thesis
    by (simp only: uint_word_of_int) simp
qed

lemma ulong_gt_INT_MAX:
  "((scast (a :: 32 word) :: 64 word) * scast (h :: 32 word) > word_of_int INT_MAX)
     = ((sint a * sint h) mod 2 ^ 64 > INT_MAX)"
proof -
  have "uint (word_of_int INT_MAX :: 64 word) = INT_MAX"
    by (simp add: INT_MAX_def uint_word_of_int)
  then show ?thesis
    by (simp add: word_less_alt scast_mult_uint)
qed

lemma prod_nonneg_bounds:
  assumes "0 \<le> (a::int)" "a < 2147483648" "0 < h" "h < 2147483648"
  shows "0 \<le> a * h \<and> a * h < 2 ^ 64"
proof -
  have "a * h \<le> 2147483648 * 2147483648"
    using assms by (intro mult_mono) simp_all
  moreover have "0 \<le> a * h" using assms by simp
  ultimately show ?thesis by simp
qed

lemma prod_neg_bounds:
  assumes "- 2147483648 \<le> (a::int)" "a < 0" "0 < h" "h < 2147483648"
  shows "- (2 ^ 62) \<le> a * h \<and> a * h < 0"
proof -
  have "(- a) * h \<le> 2147483648 * 2147483648"
    using assms by (intro mult_mono) simp_all
  moreover have "a * h < 0" using assms by (simp add: mult_neg_pos)
  ultimately show ?thesis by simp
qed

lemma mod_neg_shift:
  assumes "- (2 ^ 62) \<le> (x::int)" "x < 0"
  shows "x mod 2 ^ 64 = x + 2 ^ 64"
proof -
  have "(x + 2 ^ 64) mod 2 ^ 64 = x + 2 ^ 64"
    using assms by (intro mod_pos_pos_trivial) simp_all
  then show ?thesis by simp
qed

lemma sint_mult_small:
  assumes "0 \<le> sint (a :: 32 word) * sint (h :: 32 word)" "sint a * sint h \<le> INT_MAX"
  shows "sint (a * h) = sint a * sint h"
  using assms
  by (simp add: sint_word_ariths INT_MAX_def signed_take_bit_int_eq_self)

lemma sint_INT_MAX: "sint (word_of_int INT_MAX :: 32 word) = INT_MAX"
  by (simp add: INT_MAX_def)

lemma minus_one_sint: "((d :: 32 word) = - 1) = (sint d = - 1)"
proof
  assume "d = - 1"
  then show "sint d = - 1" by simp
next
  assume "sint d = - 1"
  then have "(word_of_int (sint d) :: 32 word) = word_of_int (- 1)" by simp
  then show "d = - 1" by simp
qed

lemma eh_deadline_ticks_cases:
  assumes hz: "0 < sint hz"
  shows "eh_deadline_ticks hz deadline handler =
     (if deadline = - 1 \<or> \<not> handler then (- 1, False)
      else if sint deadline < 0 \<or> sint deadline * sint hz > INT_MAX
      then (word_of_int INT_MAX, True)
      else (deadline * hz, False))"
proof (cases "sint deadline < 0")
  case True
  from prod_neg_bounds [OF _ True hz] sint32_bounds [of deadline] sint32_bounds [of hz]
  have b: "- (2 ^ 62) \<le> sint deadline * sint hz \<and> sint deadline * sint hz < 0" by simp
  then have "(sint deadline * sint hz) mod 2 ^ 64 = sint deadline * sint hz + 2 ^ 64"
    using mod_neg_shift by blast
  with b have "(sint deadline * sint hz) mod 2 ^ 64 > INT_MAX"
    by (simp add: INT_MAX_def)
  with True show ?thesis
    by (simp add: eh_deadline_ticks_def ulong_gt_INT_MAX)
next
  case False
  then have nn: "0 \<le> sint deadline" by simp
  from prod_nonneg_bounds [OF nn _ hz] sint32_bounds [of deadline] sint32_bounds [of hz]
  have b: "0 \<le> sint deadline * sint hz \<and> sint deadline * sint hz < 2 ^ 64" by simp
  then have "(sint deadline * sint hz) mod 2 ^ 64 = sint deadline * sint hz"
    by simp
  with False show ?thesis
    by (simp add: eh_deadline_ticks_def ulong_gt_INT_MAX)
qed

lemma eh_deadline_ticks_sint:
  assumes hz: "0 < sint hz"
  shows "(sint (fst (eh_deadline_ticks hz deadline handler)),
          snd (eh_deadline_ticks hz deadline handler)) =
     (if sint deadline < - 1 \<and> handler then (INT_MAX, True)
      else eh_deadline_claimed (sint hz) (sint deadline) handler)"
proof (cases "deadline = - 1 \<or> \<not> handler")
  case True
  then show ?thesis
    by (auto simp add: eh_deadline_ticks_cases [OF hz] eh_deadline_claimed_def)
next
  case False
  then have d: "sint deadline \<noteq> - 1" and h: handler
    by (simp_all add: minus_one_sint)
  show ?thesis
  proof (cases "sint deadline < 0 \<or> sint deadline * sint hz > INT_MAX")
    case True
    with d h False show ?thesis
      by (auto simp add: eh_deadline_ticks_cases [OF hz] eh_deadline_claimed_def sint_INT_MAX)
  next
    case False
    with hz have "0 \<le> sint deadline * sint hz" "sint deadline * sint hz \<le> INT_MAX"
      by simp_all
    then have "sint (deadline * hz) = sint deadline * sint hz"
      by (rule sint_mult_small)
    with d h False \<open>\<not> (deadline = - 1 \<or> \<not> handler)\<close> show ?thesis
      by (auto simp add: eh_deadline_ticks_cases [OF hz] eh_deadline_claimed_def)
  qed
qed


lemmas alloc_defs =
  scsi_host_alloc_def alloc_fields_def zeroed_Scsi_Host_def zeroed_device_def
  device_initialize_def dev_set_name_def

lemma alloc_fields_result:
  "alloc_fields cfg g sht hn shost = (shost', tr) \<Longrightarrow>
     shost_state shost' = shost_state shost
     \<and> can_queue shost' = sht_can_queue sht
     \<and> eh_deadline shost' =
         fst (eh_deadline_ticks (HZ cfg) (shost_eh_deadline g) (sht_eh_host_reset_handler sht))
     \<and> tr = (if snd (eh_deadline_ticks (HZ cfg) (shost_eh_deadline g)
                      (sht_eh_host_reset_handler sht))
             then [Shost_printk KERN_WARNING ''eh_deadline %u too large, setting to %u'']
             else [])
     \<and> work_q shost' = work_q shost \<and> shost_data shost' = shost_data shost
     \<and> bqt shost' = bqt shost"
  by (auto simp add: alloc_fields_def Let_def split: prod.splits)



lemma alloc_Some:
  assumes "scsi_host_alloc cfg env g sht privsize = (Some shost, g', tr)"
  shows "shost_state shost = SHOST_CREATED
     \<and> can_queue shost = sht_can_queue sht
     \<and> eh_deadline shost =
         fst (eh_deadline_ticks (HZ cfg) (shost_eh_deadline g) (sht_eh_host_reset_handler sht))
     \<and> (Shost_printk KERN_WARNING ''eh_deadline %u too large, setting to %u'' \<in> set tr)
         = snd (eh_deadline_ticks (HZ cfg) (shost_eh_deadline g)
                  (sht_eh_host_reset_handler sht))
     \<and> work_q shost = None \<and> shost_data shost = None \<and> bqt shost = None"
proof -
  obtain h tr1 where f: "alloc_fields cfg (g\<lparr>scsi_host_next_hn := scsi_host_next_hn g + 1\<rparr>) sht
               (scsi_host_next_hn g + 1 - 1)
               (zeroed_Scsi_Host sht (blank_transport_template cfg)
                  \<lparr>shost_state := SHOST_CREATED\<rparr>) = (h, tr1)"
    by (cases "alloc_fields cfg (g\<lparr>scsi_host_next_hn := scsi_host_next_hn g + 1\<rparr>) sht
               (scsi_host_next_hn g + 1 - 1)
               (zeroed_Scsi_Host sht (blank_transport_template cfg)
                  \<lparr>shost_state := SHOST_CREATED\<rparr>)")
  note r = alloc_fields_result [OF f]
  from assms f have sh: "shost = h\<lparr>ehandler := Some (Kthread (Kname ''scsi_eh_%d'' (host_no h))),
        tmf_work_q := Some (Workqueue (Kname ''scsi_tmf_%d'' (host_no h)))\<rparr>"
    and tr: "tr = [Kzalloc_Scsi_Host privsize (sht_unchecked_isa_dma sht \<and> privsize \<noteq> 0) True]
        @ tr1 @ [Kthread_run (Kname ''scsi_eh_%d'' (host_no h)) None,
                 Alloc_workqueue (Kname ''scsi_tmf_%d'' (host_no h)) True,
                 Scsi_proc_hostdir_add]"
    by (auto simp add: scsi_host_alloc_def Let_def split: option.splits if_splits)
  from r sh tr show ?thesis
    by (simp add: zeroed_Scsi_Host_def)
qed

lemma sample_alloc_deadline:
  "scsi_host_alloc sample_config sample_alloc_env (sample_globals\<lparr>shost_eh_deadline := d\<rparr>)
     sample_template 0 =
     (Some (sample_host\<lparr>eh_deadline := fst (eh_deadline_ticks 100 d True)\<rparr>),
      sample_globals\<lparr>shost_eh_deadline := d, scsi_host_next_hn := 1\<rparr>,
      [Kzalloc_Scsi_Host 0 False True]
      @ (if snd (eh_deadline_ticks 100 d True)
         then [Shost_printk KERN_WARNING ''eh_deadline %u too large, setting to %u'']
         else [])
      @ [Kthread_run (Kname ''scsi_eh_%d'' 0) None,
         Alloc_workqueue (Kname ''scsi_tmf_%d'' 0) True, Scsi_proc_hostdir_add])"
  by (simp add: alloc_defs sample_config_def sample_alloc_env_def sample_globals_def
      sample_template_def sample_host_def Let_def split: prod.splits)

text \<open>
  C9, as the code has it.  With a positive tick rate, the host that
  \<open>scsi_host_alloc\<close> returns has its deadline disabled (\<open>-1\<close>) when the parameter
  is \<open>-1\<close> or the template has no reset handler.  Otherwise a parameter below
  \<open>-1\<close> is read as a large unsigned number, so the deadline is \<open>INT_MAX\<close> and the
  warning is printed; and for a parameter that is not negative the deadline is
  \<open>INT_MAX\<close> with the warning when seconds times tick rate exceeds \<open>INT_MAX\<close>,
  and exactly seconds times tick rate otherwise.
\<close>

theorem scsi_host_alloc_eh_deadline:
  assumes "0 < sint (HZ cfg)"
    and "scsi_host_alloc cfg env g sht privsize = (Some shost, g', tr)"
  shows "(sint (eh_deadline shost),
          Shost_printk KERN_WARNING ''eh_deadline %u too large, setting to %u'' \<in> set tr) =
     (if sint (shost_eh_deadline g) < - 1 \<and> sht_eh_host_reset_handler sht
      then (INT_MAX, True)
      else eh_deadline_claimed (sint (HZ cfg)) (sint (shost_eh_deadline g))
             (sht_eh_host_reset_handler sht))"
  using alloc_Some [OF assms(2)] eh_deadline_ticks_sint [OF assms(1)]
  by simp

theorem scsi_host_alloc_eh_deadline_witness:
  "0 < sint (HZ sample_config)
   \<and> map_option (\<lambda>h. sint (eh_deadline h))
        (fst (scsi_host_alloc sample_config sample_alloc_env
               (sample_globals\<lparr>shost_eh_deadline := 5\<rparr>) sample_template 0)) = Some 500"
proof -
  have hz: "0 < sint (HZ sample_config)"
    by (simp add: sample_config_def)
  note run = sample_alloc_deadline [of 5]
  from scsi_host_alloc_eh_deadline [OF hz run]
  have "sint (eh_deadline (sample_host\<lparr>eh_deadline := fst (eh_deadline_ticks 100 5 True)\<rparr>)) = 500"
    by (simp add: eh_deadline_claimed_def sample_config_def sample_globals_def
        sample_template_def INT_MAX_def)
  with hz run show ?thesis by simp
qed

text \<open>
  The statement without the case of a negative parameter fails: for \<open>-2\<close> seconds
  at 100 ticks a second the product \<open>-200\<close> does not exceed \<open>INT_MAX\<close>, yet the
  host gets the deadline \<open>INT_MAX\<close>.
\<close>

theorem eh_deadline_negative_counterexample:
  "map_option (\<lambda>h. sint (eh_deadline h))
      (fst (scsi_host_alloc sample_config sample_alloc_env
             (sample_globals\<lparr>shost_eh_deadline := - 2\<rparr>) sample_template 0)) = Some INT_MAX
   \<and> eh_deadline_claimed (sint (HZ sample_config)) (sint (- 2 :: 32 word))
        (sht_eh_host_reset_handler sample_template) = (- 200, False)"
proof -
  have ticks: "eh_deadline_ticks 100 (- 2) True = (word_of_int INT_MAX, True)"
    by (simp add: eh_deadline_ticks_def INT_MAX_def)
  have code: "map_option (\<lambda>h. sint (eh_deadline h))
      (fst (scsi_host_alloc sample_config sample_alloc_env
             (sample_globals\<lparr>shost_eh_deadline := - 2\<rparr>) sample_template 0)) = Some INT_MAX"
    by (simp only: sample_alloc_deadline ticks) (simp add: INT_MAX_def)
  have claimed: "eh_deadline_claimed (sint (HZ sample_config)) (sint (- 2 :: 32 word))
        (sht_eh_host_reset_handler sample_template) = (- 200, False)"
    by (simp add: eh_deadline_claimed_def sample_config_def sample_template_def INT_MAX_def)
  from code claimed show ?thesis by (rule conjI)
qed

subsection \<open>Publishing a host\<close>

lemmas add_defs =
  scsi_add_host_with_dma_def add_tags_def add_freelist_def add_gendev_def add_shost_dev_def
  add_shost_data_def add_work_q_def add_sysfs_def out_destroy_host_def out_free_shost_data_def
  out_del_dev_def out_del_gendev_def out_destroy_freelist_def out_destroy_tags_def add_fail_def
  shost_use_blk_mq_def

lemma failing_step_append:
  "failing_step (xs @ ys) =
     (case failing_step xs of Some step \<Rightarrow> Some step | None \<Rightarrow> failing_step ys)"
  by (induction xs) (simp_all split: option.splits)


lemmas out_defs =
  out_destroy_host_def out_free_shost_data_def out_del_dev_def out_del_gendev_def
  out_destroy_freelist_def out_destroy_tags_def add_fail_def shost_use_blk_mq_def

lemma add_sysfs_outcome:
  assumes "failing_step tr = None" "shost_state shost = SHOST_RUNNING"
  shows "add_outcome_ok (add_sysfs env shost tr)"
  using assms
  by (simp add: add_sysfs_def out_defs add_outcome_ok_def Let_def failing_step_append
      state_after_add_def split: option.splits)

lemma add_work_q_outcome:
  assumes "failing_step tr = None" "shost_state shost = SHOST_RUNNING"
  shows "add_outcome_ok (add_work_q env shost tr)"
proof (cases "create_work_queue (transportt shost) \<and> \<not> create_singlethread_workqueue_ok env")
  case True
  with assms show ?thesis
    by (simp add: add_work_q_def out_defs add_outcome_ok_def Let_def failing_step_append
        state_after_add_def EINVAL_def)
next
  case False
  with assms show ?thesis
    by (auto simp add: add_work_q_def Let_def failing_step_append intro!: add_sysfs_outcome)
qed

lemma add_shost_data_outcome:
  assumes "failing_step tr = None" "shost_state shost = SHOST_RUNNING"
  shows "add_outcome_ok (add_shost_data env shost tr)"
proof (cases "host_size (transportt shost) \<noteq> 0 \<and> \<not> kzalloc_shost_data_ok env")
  case True
  with assms show ?thesis
    by (simp add: add_shost_data_def out_defs add_outcome_ok_def Let_def failing_step_append
        state_after_add_def ENOMEM_def)
next
  case False
  with assms show ?thesis
    by (auto simp add: add_shost_data_def Let_def failing_step_append intro!: add_work_q_outcome)
qed

lemma add_shost_dev_outcome:
  assumes "failing_step tr = None" "shost_state shost = SHOST_CREATED"
  shows "add_outcome_ok (add_shost_dev env shost tr)"
proof (cases "device_add_shost_dev_ret env \<noteq> 0")
  case True
  with assms show ?thesis
    by (simp add: add_shost_dev_def out_defs add_outcome_ok_def Let_def failing_step_append
        state_after_add_def set_state_result get_device_def)
next
  case False
  with assms show ?thesis
    by (auto simp add: add_shost_dev_def Let_def failing_step_append set_state_result
        get_device_def intro!: add_shost_data_outcome)
qed

lemma add_gendev_outcome:
  assumes "failing_step tr = None" "shost_state shost = SHOST_CREATED"
  shows "add_outcome_ok (add_gendev env shost dev dma tr)"
proof (cases "device_add_gendev_ret env \<noteq> 0")
  case True
  with assms show ?thesis
    by (simp add: add_gendev_def out_defs add_outcome_ok_def Let_def failing_step_append
        state_after_add_def)
next
  case False
  with assms show ?thesis
    by (auto simp add: add_gendev_def Let_def failing_step_append intro!: add_shost_dev_outcome)
qed

lemma add_freelist_outcome:
  assumes "failing_step tr = None" "shost_state shost = SHOST_CREATED"
  shows "add_outcome_ok (add_freelist env shost dev dma tr)"
proof (cases "scsi_setup_command_freelist_ret env \<noteq> 0")
  case True
  with assms show ?thesis
    by (simp add: add_freelist_def out_defs add_outcome_ok_def Let_def failing_step_append
        state_after_add_def)
next
  case False
  with assms show ?thesis
    by (auto simp add: add_freelist_def Let_def failing_step_append intro!: add_gendev_outcome)
qed

lemma add_tags_outcome:
  assumes "failing_step tr = None" "shost_state shost = SHOST_CREATED"
  shows "add_outcome_ok (add_tags env shost dev dma tr)"
proof (cases "if use_blk_mq shost then scsi_mq_setup_tags_ret env \<noteq> 0 else \<not> blk_init_tags_ok env")
  case True
  with assms show ?thesis
    by (simp add: add_tags_def out_defs add_outcome_ok_def Let_def failing_step_append
        state_after_add_def ENOMEM_def split: if_splits)
next
  case False
  with assms show ?thesis
    by (auto simp add: add_tags_def Let_def failing_step_append shost_use_blk_mq_def
        split: if_splits intro!: add_freelist_outcome)
qed

lemma add_host_outcome:
  assumes "shost_state shost = SHOST_CREATED"
  shows "add_outcome_ok (scsi_add_host_with_dma env shost dev dma)"
proof (cases "can_queue shost = 0")
  case True
  with assms show ?thesis
    by (simp add: scsi_add_host_with_dma_def add_fail_def add_outcome_ok_def
        state_after_add_def EINVAL_def)
next
  case False
  with assms show ?thesis
    by (auto simp add: scsi_add_host_with_dma_def intro!: add_tags_outcome)
qed
















lemma sample_add_sysfs_fails:
  "scsi_add_host_with_dma (sample_add_env\<lparr>scsi_sysfs_add_host_ret := - 12\<rparr>)
     sample_host None None =
   (- 12,
    sample_host\<lparr>shost_state := SHOST_RUNNING,
      shost_gendev := (shost_gendev sample_host)\<lparr>parent := Some Platform_bus, kref := 2\<rparr>,
      dma_dev := Some Platform_bus,
      bqt := Some (Blk_queue_tag 32 0)\<rparr>,
    [Shost_printk KERN_INFO ''%s'', Blk_init_tags 32 0 True, Scsi_setup_command_freelist 0,
     Device_add Shost_gendev 0, Pm_runtime_set_active Shost_gendev,
     Pm_runtime_enable Shost_gendev, Get_device_parent (Some Platform_bus),
     Device_add Shost_dev 0, Scsi_sysfs_add_host (- 12), Kfree None,
     Device_del Shost_dev, Put_device Shost_dev, Device_del Shost_gendev,
     Scsi_destroy_command_freelist])"
  by (simp add: add_defs sample_add_env_def sample_host_def sample_template_def Let_def
      set_state_result get_device_def)




lemma sample_add_deleted_host:
  "scsi_add_host_with_dma sample_add_env (sample_host\<lparr>shost_state := SHOST_DEL\<rparr>)
     None None =
   (0,
    sample_host\<lparr>shost_state := SHOST_DEL,
      shost_gendev := (shost_gendev sample_host)\<lparr>parent := Some Platform_bus, kref := 2\<rparr>,
      dma_dev := Some Platform_bus,
      bqt := Some (Blk_queue_tag 32 0)\<rparr>,
    [Shost_printk KERN_INFO ''%s'', Blk_init_tags 32 0 True, Scsi_setup_command_freelist 0,
     Device_add Shost_gendev 0, Pm_runtime_set_active Shost_gendev,
     Pm_runtime_enable Shost_gendev, Get_device_parent (Some Platform_bus),
     Device_add Shost_dev 0, Scsi_sysfs_add_host 0, Scsi_proc_host_add])"
  by (simp add: add_defs sample_add_env_def sample_host_def sample_template_def Let_def
      set_state_result get_device_def EINVAL_def)

text \<open>
  C2, as the code has it.  The value of \<open>scsi_host_set_state\<close> on line 256 is
  dropped, so what the state is afterwards depends on the state at entry.  For a host
  that enters in \<open>SHOST_CREATED\<close>, as \<open>scsi_host_alloc\<close> returns it, every
  run of \<open>scsi_add_host_with_dma\<close> returns zero exactly when no step failed, and
  then the state is \<open>SHOST_RUNNING\<close>; when it returns an error the state is
  \<open>SHOST_CREATED\<close> if the failing step is the \<open>can_queue\<close> check, the tag setup,
  the free-list setup or the registration of \<open>shost_gendev\<close>, and
  \<open>SHOST_RUNNING\<close> if it is the registration of \<open>shost_dev\<close>, the allocation of
  the host data, the creation of the work queue or the sysfs registration.
\<close>

theorem scsi_add_host_state:
  assumes "shost_state shost = SHOST_CREATED"
  shows "case scsi_add_host_with_dma env shost dev dma of (error, shost', tr) \<Rightarrow>
           (error = 0) = (failing_step tr = None)
           \<and> shost_state shost' =
               (case failing_step tr of
                  None \<Rightarrow> SHOST_RUNNING
                | Some step \<Rightarrow>
                    if before_transition step then SHOST_CREATED else SHOST_RUNNING)"
  using add_host_outcome [OF assms, of env dev dma]
  by (simp add: add_outcome_ok_def state_after_add_def)

theorem scsi_add_host_state_witness:
  "shost_state sample_host = SHOST_CREATED
   \<and> fst (scsi_add_host_with_dma (sample_add_env\<lparr>scsi_sysfs_add_host_ret := - 12\<rparr>)
            sample_host None None) = - 12
   \<and> failing_step (snd (snd (scsi_add_host_with_dma
        (sample_add_env\<lparr>scsi_sysfs_add_host_ret := - 12\<rparr>) sample_host None None)))
      = Some Sysfs_add_host
   \<and> shost_state (fst (snd (scsi_add_host_with_dma
        (sample_add_env\<lparr>scsi_sysfs_add_host_ret := - 12\<rparr>) sample_host None None)))
      = SHOST_RUNNING"
proof -
  have h: "shost_state sample_host = SHOST_CREATED"
    by (simp add: sample_host_def)
  from scsi_add_host_state
    [OF h, of "sample_add_env\<lparr>scsi_sysfs_add_host_ret := - 12\<rparr>" None None]
  show ?thesis
    by (simp add: sample_add_sysfs_fails h)
qed

text \<open>
  Without the condition on the state at entry the statement fails: on a host in
  \<open>SHOST_DEL\<close> the transition to \<open>SHOST_RUNNING\<close> is refused, the refusal is
  not looked at, and the run returns zero with the state still \<open>SHOST_DEL\<close>.
\<close>

theorem publish_deleted_host_counterexample:
  "fst (scsi_add_host_with_dma sample_add_env (sample_host\<lparr>shost_state := SHOST_DEL\<rparr>)
          None None) = 0
   \<and> shost_state (fst (snd (scsi_add_host_with_dma sample_add_env
        (sample_host\<lparr>shost_state := SHOST_DEL\<rparr>) None None))) = SHOST_DEL"
  by (simp add: sample_add_deleted_host)






end
